theory Spec2Isabelle
  imports Main
begin

section \<open>The authentication context of the community dashboard\<close>

text \<open>
  A shallow embedding of \<^verbatim>\<open>src/frontend/src/hooks/useAuth.tsx\<close>: the React component
  \<^verbatim>\<open>AuthProvider\<close>, its session-change callback, the four actions it exposes and the
  default value of \<^verbatim>\<open>AuthContext\<close>.

  The component is sequential glue around two external services (the identity platform
  and the document store). Their calls are suspension points of \<^verbatim>\<open>async\<close> functions that
  are awaited inline, so each function is modelled as a state transformer that returns
  the error it rejects with (\<open>None\<close> when the promise resolves) and the state it leaves
  behind. What the external services answer is a parameter of every function.
\<close>

subsection \<open>Values, errors, users, documents\<close>

text \<open>
  The run-time values a document field may hold, as far as JavaScript's \<^verbatim>\<open>||\<close>
  distinguishes them. \<open>JUndefined\<close> is what reading a missing field yields; \<open>JObj\<close>
  stands for every object (maps, arrays, timestamps), all of them truthy.
\<close>

datatype js_value =
    JUndefined
  | JNull
  | JBool bool
  | JNum int
  | JNaN
  | JStr string
  | JObj

text \<open>JavaScript's truthiness: the falsy values are exactly the ones listed.\<close>

fun truthy :: "js_value \<Rightarrow> bool" where
  "truthy JUndefined = False"
| "truthy JNull = False"
| "truthy (JBool b) = b"
| "truthy (JNum n) = (n \<noteq> 0)"
| "truthy JNaN = False"
| "truthy (JStr s) = (s \<noteq> [])"
| "truthy JObj = True"

text \<open>\<^verbatim>\<open>a || b\<close>\<close>

definition js_or :: "js_value \<Rightarrow> js_value \<Rightarrow> js_value" where
  "js_or a b = (if truthy a then a else b)"

text \<open>
  A thrown value: a \<^verbatim>\<open>FirebaseError\<close> carries a machine-readable code and a message, any
  other error only a message.
\<close>

datatype js_error =
    FirebaseError string string
  | JsError string

fun is_FirebaseError :: "js_error \<Rightarrow> bool" where
  "is_FirebaseError (FirebaseError c m) = True"
| "is_FirebaseError (JsError m) = False"

fun err_code :: "js_error \<Rightarrow> js_value" where
  "err_code (FirebaseError c m) = JStr c"
| "err_code (JsError m) = JUndefined"

fun err_message :: "js_error \<Rightarrow> string" where
  "err_message (FirebaseError c m) = m"
| "err_message (JsError m) = m"

text \<open>
  The platform's \<^verbatim>\<open>User\<close>, with the two fields this file reads (\<^verbatim>\<open>email\<close> is
  \<^verbatim>\<open>string | null\<close>), and \<^verbatim>\<open>ExtendedUser\<close>, which adds the role. The role is whatever
  value the document held, so it is a \<open>js_value\<close>.
\<close>

record firebase_user =
  uid :: string
  email :: "string option"

record extended_user = firebase_user +
  role :: js_value

text \<open>\<^verbatim>\<open>{ ...firebaseUser, role: r }\<close>\<close>

definition with_role :: "firebase_user \<Rightarrow> js_value \<Rightarrow> extended_user" where
  "with_role firebaseUser r = \<lparr>uid = uid firebaseUser, email = email firebaseUser, role = r\<rparr>"

text \<open>
  A document is an object literal: its fields in the order written. A document
  reference is the pair of collection and document id, \<^verbatim>\<open>doc(db, "users", id)\<close>.
\<close>

type_synonym document = "(string \<times> js_value) list"

type_synonym doc_ref = "string \<times> string"

definition doc :: "string \<Rightarrow> string \<Rightarrow> doc_ref" where
  "doc collection ident = (collection, ident)"

text \<open>\<^verbatim>\<open>data.f\<close>: reading a field that the object lacks gives \<^verbatim>\<open>undefined\<close>.\<close>

definition field :: "document \<Rightarrow> string \<Rightarrow> js_value" where
  "field d f = (case map_of d f of None \<Rightarrow> JUndefined | Some v \<Rightarrow> v)"

text \<open>A \<^verbatim>\<open>string | null\<close> as a field value.\<close>

fun nullable :: "string option \<Rightarrow> js_value" where
  "nullable None = JNull"
| "nullable (Some s) = JStr s"

subsection \<open>The external services and the state\<close>

text \<open>
  Every call this file makes to the outside is recorded, in order, whether it succeeds
  or not; so is every \<^verbatim>\<open>console.error\<close>.
\<close>

datatype effect =
    GetDoc doc_ref
  | SetDoc doc_ref document
  | SignInWithEmailAndPassword string string
  | CreateUserWithEmailAndPassword string string
  | SignInWithPopup
  | SignOut
  | ConsoleError string "js_error option"

text \<open>
  What the external services answer while one function of the component runs: for the
  document store whether a read or a write raises, for the identity platform the
  credential's user or the error of each call.
\<close>

record services =
  getDoc_fault :: "js_error option"
  setDoc_fault :: "js_error option"
  signIn_reply :: "js_error + firebase_user"
  createUser_reply :: "js_error + firebase_user"
  popup_reply :: "js_error + firebase_user"
  signOut_fault :: "js_error option"

text \<open>
  The component's two state cells (\<^verbatim>\<open>useState\<close>), the document store, and the record of
  effects.
\<close>

record system =
  user :: "extended_user option"
  authReady :: bool
  db :: "doc_ref \<rightharpoonup> document"
  effects :: "effect list"

definition setUser :: "extended_user option \<Rightarrow> system \<Rightarrow> system" where
  "setUser u s = s\<lparr>user := u\<rparr>"

definition setAuthReady :: "bool \<Rightarrow> system \<Rightarrow> system" where
  "setAuthReady b s = s\<lparr>authReady := b\<rparr>"

definition perform :: "effect \<Rightarrow> system \<Rightarrow> system" where
  "perform e s = s\<lparr>effects := effects s @ [e]\<rparr>"

definition console_error :: "string \<Rightarrow> js_error option \<Rightarrow> system \<Rightarrow> system" where
  "console_error msg err s = perform (ConsoleError msg err) s"

text \<open>The document store: a point read gives the snapshot, a point write replaces the document.\<close>

definition getDoc :: "services \<Rightarrow> doc_ref \<Rightarrow> system \<Rightarrow> (js_error + document option) \<times> system" where
  "getDoc sv ref s =
     (case getDoc_fault sv of
        Some err \<Rightarrow> (Inl err, perform (GetDoc ref) s)
      | None \<Rightarrow> (Inr (db s ref), perform (GetDoc ref) s))"

definition setDoc :: "services \<Rightarrow> doc_ref \<Rightarrow> document \<Rightarrow> system \<Rightarrow> js_error option \<times> system" where
  "setDoc sv ref d s =
     (case setDoc_fault sv of
        Some err \<Rightarrow> (Some err, perform (SetDoc ref d) s)
      | None \<Rightarrow> (None, (perform (SetDoc ref d) s)\<lparr>db := (db s)(ref \<mapsto> d)\<rparr>))"

text \<open>The identity platform.\<close>

definition signInWithEmailAndPassword ::
  "services \<Rightarrow> string \<Rightarrow> string \<Rightarrow> system \<Rightarrow> (js_error + firebase_user) \<times> system" where
  "signInWithEmailAndPassword sv em pw s =
     (signIn_reply sv, perform (SignInWithEmailAndPassword em pw) s)"

definition createUserWithEmailAndPassword ::
  "services \<Rightarrow> string \<Rightarrow> string \<Rightarrow> system \<Rightarrow> (js_error + firebase_user) \<times> system" where
  "createUserWithEmailAndPassword sv em pw s =
     (createUser_reply sv, perform (CreateUserWithEmailAndPassword em pw) s)"

definition signInWithPopup :: "services \<Rightarrow> system \<Rightarrow> (js_error + firebase_user) \<times> system" where
  "signInWithPopup sv s = (popup_reply sv, perform SignInWithPopup s)"

definition signOut :: "services \<Rightarrow> system \<Rightarrow> js_error option \<times> system" where
  "signOut sv s = (signOut_fault sv, perform SignOut s)"

subsection \<open>The component\<close>

text \<open>\<^verbatim>\<open>useState(null)\<close>, \<^verbatim>\<open>useState(false)\<close>: the state when the provider mounts.\<close>

definition AuthProvider_init :: "(doc_ref \<rightharpoonup> document) \<Rightarrow> system" where
  "AuthProvider_init store = \<lparr>user = None, authReady = False, db = store, effects = []\<rparr>"

text \<open>\<^verbatim>\<open>fetchUserData\<close> (lines 47-63).\<close>

definition fetchUserData :: "services \<Rightarrow> firebase_user \<Rightarrow> system \<Rightarrow> js_error option \<times> system" where
  "fetchUserData sv firebaseUser s =
     (let userRef = doc ''users'' (uid firebaseUser) in
      case getDoc sv userRef s of
        (Inl err, s1) \<Rightarrow> (Some err, s1)
      | (Inr snap, s1) \<Rightarrow>
          (case snap of
             Some data \<Rightarrow>
               (let roleData = js_or (field data ''role'') (JStr ''member'')
                in (None, setUser (Some (with_role firebaseUser roleData)) s1))
           | None \<Rightarrow>
               (let initialRole = JStr ''member'' in
                case setDoc sv userRef
                       [(''uid'', JStr (uid firebaseUser)),
                        (''email'', nullable (email firebaseUser)),
                        (''role'', initialRole)] s1 of
                  (Some err, s2) \<Rightarrow> (Some err, s2)
                | (None, s2) \<Rightarrow> (None, setUser (Some (with_role firebaseUser initialRole)) s2))))"

text \<open>The callback registered with \<^verbatim>\<open>onAuthStateChanged\<close> (lines 66-73).\<close>

definition onAuthStateChanged_callback ::
  "services \<Rightarrow> firebase_user option \<Rightarrow> system \<Rightarrow> js_error option \<times> system" where
  "onAuthStateChanged_callback sv firebaseUser s =
     (case firebaseUser of
        Some fu \<Rightarrow>
          (case fetchUserData sv fu s of
             (Some err, s1) \<Rightarrow> (Some err, s1)
           | (None, s1) \<Rightarrow> (None, setAuthReady True s1))
      | None \<Rightarrow> (None, setAuthReady True (setUser None s)))"

text \<open>\<^verbatim>\<open>login\<close> (lines 78-85).\<close>

definition login :: "services \<Rightarrow> string \<Rightarrow> string \<Rightarrow> system \<Rightarrow> js_error option \<times> system" where
  "login sv em password s =
     (case signInWithEmailAndPassword sv em password s of
        (Inr cred, s1) \<Rightarrow> (None, s1)
      | (Inl err, s1) \<Rightarrow> (Some err, console_error ''Login error:'' (Some err) s1))"

text \<open>\<^verbatim>\<open>signup\<close> (lines 87-99).\<close>

definition signup :: "services \<Rightarrow> string \<Rightarrow> string \<Rightarrow> system \<Rightarrow> js_error option \<times> system" where
  "signup sv em password s =
     (case createUserWithEmailAndPassword sv em password s of
        (Inl err, s1) \<Rightarrow> (Some err, console_error ''Signup error:'' (Some err) s1)
      | (Inr cred, s1) \<Rightarrow>
          (case setDoc sv (doc ''users'' (uid cred))
                  [(''uid'', JStr (uid cred)), (''email'', JStr em), (''role'', JStr ''member'')] s1 of
             (Some err, s2) \<Rightarrow> (Some err, console_error ''Signup error:'' (Some err) s2)
           | (None, s2) \<Rightarrow> (None, s2)))"

text \<open>\<^verbatim>\<open>loginWithGoogle\<close> (lines 101-113).\<close>

definition loginWithGoogle :: "services \<Rightarrow> system \<Rightarrow> js_error option \<times> system" where
  "loginWithGoogle sv s =
     (case signInWithPopup sv s of
        (Inr cred, s1) \<Rightarrow> (None, s1)
      | (Inl err, s1) \<Rightarrow>
          (if is_FirebaseError err \<and> err_code err = JStr ''auth/popup-blocked''
           then (Some (JsError ''Google login failed: Your browser blocked the sign-in pop-up. Please allow pop-ups for this site or try again.''),
                 console_error ''Google login failed: Pop-up was blocked. Recommend switching to signInWithRedirect.'' None s1)
           else (Some err, console_error ''Google login error:'' (Some err) s1)))"

text \<open>\<^verbatim>\<open>logout\<close> (lines 115-122).\<close>

definition logout :: "services \<Rightarrow> system \<Rightarrow> js_error option \<times> system" where
  "logout sv s =
     (case signOut sv s of
        (None, s1) \<Rightarrow> (None, s1)
      | (Some err, s1) \<Rightarrow> (Some err, console_error ''Logout error:'' (Some err) s1))"

subsection \<open>The context\<close>

text \<open>\<^verbatim>\<open>AuthContextType\<close>: the capability bundle handed to consumers.\<close>

record auth_context =
  ctx_user :: "extended_user option"
  ctx_authReady :: bool
  ctx_login :: "services \<Rightarrow> string \<Rightarrow> string \<Rightarrow> system \<Rightarrow> js_error option \<times> system"
  ctx_signup :: "services \<Rightarrow> string \<Rightarrow> string \<Rightarrow> system \<Rightarrow> js_error option \<times> system"
  ctx_loginWithGoogle :: "services \<Rightarrow> system \<Rightarrow> js_error option \<times> system"
  ctx_logout :: "services \<Rightarrow> system \<Rightarrow> js_error option \<times> system"

text \<open>
  The default value given to \<^verbatim>\<open>createContext\<close> (lines 32-39): every action is
  \<^verbatim>\<open>async () => {}\<close>.
\<close>

definition AuthContext :: auth_context where
  "AuthContext =
     \<lparr>ctx_user = None,
      ctx_authReady = False,
      ctx_login = (\<lambda>sv em password s. (None, s)),
      ctx_signup = (\<lambda>sv em password s. (None, s)),
      ctx_loginWithGoogle = (\<lambda>sv s. (None, s)),
      ctx_logout = (\<lambda>sv s. (None, s))\<rparr>"

text \<open>The value the provider renders with (lines 126-128).\<close>

definition AuthProvider_value :: "system \<Rightarrow> auth_context" where
  "AuthProvider_value s =
     \<lparr>ctx_user = user s,
      ctx_authReady = authReady s,
      ctx_login = login,
      ctx_signup = signup,
      ctx_loginWithGoogle = loginWithGoogle,
      ctx_logout = logout\<rparr>"

text \<open>
  \<^verbatim>\<open>useAuth = () => useContext(AuthContext)\<close>: the value of the nearest enclosing provider,
  and the context's default value when there is none.
\<close>

definition useAuth :: "auth_context option \<Rightarrow> auth_context" where
  "useAuth provider = (case provider of None \<Rightarrow> AuthContext | Some v \<Rightarrow> v)"

subsection \<open>Lifetimes of the component\<close>

text \<open>
  What can happen to a mounted provider: the platform delivers a session-change
  notification, or a consumer calls one of the four actions.
\<close>

datatype event =
    AuthStateChanged "firebase_user option"
  | Login string string
  | Signup string string
  | LoginWithGoogle
  | Logout

fun is_notification :: "event \<Rightarrow> bool" where
  "is_notification (AuthStateChanged fu) = True"
| "is_notification e = False"

fun step :: "services \<Rightarrow> event \<Rightarrow> system \<Rightarrow> js_error option \<times> system" where
  "step sv (AuthStateChanged fu) s = onAuthStateChanged_callback sv fu s"
| "step sv (Login em pw) s = login sv em pw s"
| "step sv (Signup em pw) s = signup sv em pw s"
| "step sv LoginWithGoogle s = loginWithGoogle sv s"
| "step sv Logout s = logout sv s"

text \<open>
  A lifetime is a list of events, each with what the services answer during it. An
  error leaves the state the failing function reached and the next event goes on from
  there.
\<close>

fun run :: "(services \<times> event) list \<Rightarrow> system \<Rightarrow> system" where
  "run [] s = s"
| "run ((sv, e) # es) s = run es (snd (step sv e s))"

text \<open>The values of the readiness flag along a lifetime, the starting value first.\<close>

fun ready_history :: "(services \<times> event) list \<Rightarrow> system \<Rightarrow> bool list" where
  "ready_history [] s = [authReady s]"
| "ready_history ((sv, e) # es) s = authReady s # ready_history es (snd (step sv e s))"

text \<open>How often a list of flags goes from false to true, and from true to false.\<close>

fun rises :: "bool list \<Rightarrow> nat" where
  "rises (a # b # bs) = (if \<not> a \<and> b then 1 else 0) + rises (b # bs)"
| "rises bs = 0"

fun falls :: "bool list \<Rightarrow> nat" where
  "falls (a # b # bs) = (if a \<and> \<not> b then 1 else 0) + falls (b # bs)"
| "falls bs = 0"

text \<open>A notification is fully processed when its callback runs to the end without an error.\<close>

definition fully_processed :: "services \<Rightarrow> event \<Rightarrow> system \<Rightarrow> bool" where
  "fully_processed sv e s = (is_notification e \<and> fst (step sv e s) = None)"

fun some_processed :: "(services \<times> event) list \<Rightarrow> system \<Rightarrow> bool" where
  "some_processed [] s = False"
| "some_processed ((sv, e) # es) s =
     (fully_processed sv e s \<or> some_processed es (snd (step sv e s)))"

text \<open>The number of document writes among a list of effects.\<close>

fun is_write :: "effect \<Rightarrow> bool" where
  "is_write (SetDoc r d) = True"
| "is_write e = False"

definition writes :: "effect list \<Rightarrow> nat" where
  "writes es = length (filter is_write es)"

text \<open>
  The notification a lifetime processed last: the argument of the last notification
  whose callback ran to its end, \<open>None\<close> when no callback did.
\<close>

fun last_processed :: "(services \<times> event) list \<Rightarrow> system \<Rightarrow> firebase_user option option" where
  "last_processed [] s = None"
| "last_processed ((sv, e) # es) s =
     (case last_processed es (snd (step sv e s)) of
        Some fu \<Rightarrow> Some fu
      | None \<Rightarrow>
          (case e of
             AuthStateChanged fu \<Rightarrow> if fst (step sv e s) = None then Some fu else None
           | _ \<Rightarrow> None))"

text \<open>
  The role that role reconciliation resolves from a record: the \<^verbatim>\<open>role\<close> field when it is
  there and truthy, \<open>"member"\<close> otherwise.
\<close>

definition record_role :: "document \<Rightarrow> js_value" where
  "record_role d =
     (case map_of d ''role'' of
        None \<Rightarrow> JStr ''member''
      | Some v \<Rightarrow> if truthy v then v else JStr ''member'')"

text \<open>
  A published user's role is resolved: the role is a truthy value (so neither missing
  nor empty), the store holds the user's role record, the read of that record is among
  the effects, and the readiness flag is set, which only the end of a callback does.
\<close>

definition role_resolved :: "system \<Rightarrow> bool" where
  "role_resolved s =
     (case user s of
        None \<Rightarrow> True
      | Some u \<Rightarrow>
          truthy (role u)
          \<and> authReady s
          \<and> db s (doc ''users'' (uid u)) \<noteq> None
          \<and> GetDoc (doc ''users'' (uid u)) \<in> set (effects s))"

subsection \<open>Sample inputs\<close>

definition alice :: firebase_user where
  "alice = \<lparr>uid = ''u1'', email = Some ''a@x.com''\<rparr>"

definition blocked :: js_error where
  "blocked = FirebaseError ''auth/popup-blocked'' ''Firebase: Error (auth/popup-blocked).''"

definition unavailable :: js_error where
  "unavailable = FirebaseError ''unavailable'' ''Failed to get document because the client is offline.''"

definition working :: services where
  "working =
     \<lparr>getDoc_fault = None, setDoc_fault = None, signIn_reply = Inr alice,
      createUser_reply = Inr alice, popup_reply = Inr alice, signOut_fault = None\<rparr>"

definition admin_store :: "doc_ref \<rightharpoonup> document" where
  "admin_store =
     [doc ''users'' ''u1'' \<mapsto> [(''uid'', JStr ''u1''), (''email'', JStr ''a@x.com''), (''role'', JStr ''admin'')]]"

definition blank_store :: "doc_ref \<rightharpoonup> document" where
  "blank_store =
     [doc ''users'' ''u1'' \<mapsto> [(''uid'', JStr ''u1''), (''email'', JStr ''a@x.com''), (''role'', JStr [])]]"

section \<open>Basic facts\<close>

lemmas sdk_defs = getDoc_def setDoc_def signInWithEmailAndPassword_def
  createUserWithEmailAndPassword_def signInWithPopup_def signOut_def perform_def
  console_error_def setUser_def setAuthReady_def

lemmas action_defs = login_def signup_def loginWithGoogle_def logout_def

lemmas handler_defs = onAuthStateChanged_callback_def fetchUserData_def Let_def

lemmas sample_defs = alice_def blocked_def unavailable_def working_def admin_store_def
  AuthProvider_init_def doc_def

lemma login_frame:
  "user (snd (login sv em pw s)) = user s" "authReady (snd (login sv em pw s)) = authReady s"
  "db (snd (login sv em pw s)) = db s"
  by (simp_all add: login_def sdk_defs split: sum.splits)

lemma signup_frame:
  "user (snd (signup sv em pw s)) = user s" "authReady (snd (signup sv em pw s)) = authReady s"
  by (simp_all add: signup_def sdk_defs split: sum.splits option.splits)

lemma loginWithGoogle_frame:
  "user (snd (loginWithGoogle sv s)) = user s" "authReady (snd (loginWithGoogle sv s)) = authReady s"
  "db (snd (loginWithGoogle sv s)) = db s"
  by (simp_all add: loginWithGoogle_def sdk_defs split: sum.splits)

lemma logout_frame:
  "user (snd (logout sv s)) = user s" "authReady (snd (logout sv s)) = authReady s"
  "db (snd (logout sv s)) = db s"
  by (simp_all add: logout_def sdk_defs split: option.splits)

lemma step_frame:
  assumes "\<not> is_notification e"
  shows "user (snd (step sv e s)) = user s" "authReady (snd (step sv e s)) = authReady s"
  using assms by (cases e; simp add: login_frame signup_frame loginWithGoogle_frame logout_frame)+

lemma step_effects: "\<exists>xs. effects (snd (step sv e s)) = effects s @ xs"
  by (cases e) (auto simp: action_defs handler_defs sdk_defs split: sum.splits option.splits)

lemma callback_ready:
  "authReady (snd (onAuthStateChanged_callback sv fu s)) =
     (authReady s \<or> fst (onAuthStateChanged_callback sv fu s) = None)"
  by (auto simp: handler_defs sdk_defs split: sum.splits option.splits)

lemma step_ready: "authReady (snd (step sv e s)) = (authReady s \<or> fully_processed sv e s)"
proof (cases "is_notification e")
  case True
  then obtain fu where "e = AuthStateChanged fu" by (cases e) simp_all
  then show ?thesis by (simp add: fully_processed_def callback_ready)
next
  case False
  then show ?thesis by (simp add: fully_processed_def step_frame)
qed

lemma run_ready: "authReady (run es s) = (authReady s \<or> some_processed es s)"
proof (induction es arbitrary: s)
  case Nil
  show ?case by simp
next
  case (Cons x es)
  obtain sv e where x: "x = (sv, e)" by (cases x)
  show ?case by (simp add: x Cons.IH step_ready)
qed

lemma rises_cons: "rises (a # ready_history es s) =
    (if \<not> a \<and> authReady s then 1 else 0) + rises (ready_history es s)"
  by (cases es) auto

lemma falls_cons: "falls (a # ready_history es s) =
    (if a \<and> \<not> authReady s then 1 else 0) + falls (ready_history es s)"
  by (cases es) auto

lemma falls_history: "falls (ready_history es s) = 0"
proof (induction es arbitrary: s)
  case Nil
  show ?case by simp
next
  case (Cons x es)
  obtain sv e where x: "x = (sv, e)" by (cases x)
  show ?case by (simp add: x falls_cons Cons.IH step_ready)
qed

lemma rises_history:
  "rises (ready_history es s) = (if \<not> authReady s \<and> some_processed es s then 1 else 0)"
proof (induction es arbitrary: s)
  case Nil
  show ?case by simp
next
  case (Cons x es)
  obtain sv e where x: "x = (sv, e)" by (cases x)
  show ?case by (auto simp: x rises_cons Cons.IH step_ready)
qed

lemma callback_changes_user:
  "user (snd (onAuthStateChanged_callback sv fu s)) \<noteq> user s \<Longrightarrow>
   fst (onAuthStateChanged_callback sv fu s) = None"
  by (auto simp: handler_defs sdk_defs split: sum.splits option.splits)

lemma callback_done:
  assumes "fst (onAuthStateChanged_callback sv (Some fu) s) = None"
  shows "getDoc_fault sv = None"
    and "\<And>d. db s (doc ''users'' (uid fu)) = Some d \<Longrightarrow>
      snd (onAuthStateChanged_callback sv (Some fu) s) =
        s\<lparr>user := Some (with_role fu (record_role d)), authReady := True,
          effects := effects s @ [GetDoc (doc ''users'' (uid fu))]\<rparr>"
    and "db s (doc ''users'' (uid fu)) = None \<Longrightarrow>
      setDoc_fault sv = None \<and>
      snd (onAuthStateChanged_callback sv (Some fu) s) =
        s\<lparr>user := Some (with_role fu (JStr ''member'')), authReady := True,
          db := (db s)(doc ''users'' (uid fu) \<mapsto>
            [(''uid'', JStr (uid fu)), (''email'', nullable (email fu)), (''role'', JStr ''member'')]),
          effects := effects s @
            [GetDoc (doc ''users'' (uid fu)),
             SetDoc (doc ''users'' (uid fu))
               [(''uid'', JStr (uid fu)), (''email'', nullable (email fu)), (''role'', JStr ''member'')]]\<rparr>"
  using assms
  by (auto simp: handler_defs sdk_defs js_or_def field_def record_role_def
      split: sum.splits option.splits)

lemma truthy_record_role: "truthy (record_role d)"
  by (simp add: record_role_def split: option.splits)

lemma callback_user:
  assumes "fst (onAuthStateChanged_callback sv (Some fu) s) = None"
  shows "\<exists>d. db (snd (onAuthStateChanged_callback sv (Some fu) s)) (doc ''users'' (uid fu)) = Some d
     \<and> user (snd (onAuthStateChanged_callback sv (Some fu) s)) = Some (with_role fu (record_role d))"
proof (cases "db s (doc ''users'' (uid fu))")
  case None
  from callback_done(3) [OF assms None] show ?thesis
    by (simp add: record_role_def)
next
  case (Some d)
  from callback_done(2) [OF assms Some] Some show ?thesis
    by simp
qed

lemma step_db: "db s r \<noteq> None \<Longrightarrow> db (snd (step sv e s)) r \<noteq> None"
  by (cases e) (auto simp: action_defs handler_defs sdk_defs split: sum.splits option.splits)

lemma callback_resolved:
  "role_resolved s \<Longrightarrow> role_resolved (snd (onAuthStateChanged_callback sv fu s))"
  by (auto simp: role_resolved_def handler_defs sdk_defs with_role_def js_or_def
      split: sum.splits option.splits)

lemma step_resolved: "role_resolved s \<Longrightarrow> role_resolved (snd (step sv e s))"
proof (cases "is_notification e")
  case True
  assume "role_resolved s"
  moreover from True obtain fu where "e = AuthStateChanged fu" by (cases e) simp_all
  ultimately show ?thesis by (simp add: callback_resolved)
next
  case False
  assume inv: "role_resolved s"
  obtain xs where "effects (snd (step sv e s)) = effects s @ xs"
    using step_effects by blast
  with inv False step_db [of s _ sv e] show ?thesis
    by (auto simp: role_resolved_def step_frame split: option.splits)
qed

lemma run_resolved: "role_resolved s \<Longrightarrow> role_resolved (run es s)"
proof (induction es arbitrary: s)
  case Nil
  then show ?case by simp
next
  case (Cons x es)
  obtain sv e where x: "x = (sv, e)" by (cases x)
  from Cons.prems have "role_resolved (snd (step sv e s))" by (rule step_resolved)
  then show ?case by (simp add: x Cons.IH)
qed

lemma init_resolved: "role_resolved (AuthProvider_init store)"
  by (simp add: role_resolved_def AuthProvider_init_def)

lemma step_user_kept:
  "\<not> fully_processed sv e s \<Longrightarrow> user (snd (step sv e s)) = user s"
proof (cases "is_notification e")
  case True
  assume n: "\<not> fully_processed sv e s"
  from True obtain fu where e: "e = AuthStateChanged fu" by (cases e) simp_all
  with n have "fst (onAuthStateChanged_callback sv fu s) \<noteq> None"
    by (simp add: fully_processed_def)
  with callback_changes_user [of sv fu s] e show ?thesis by auto
next
  case False
  then show ?thesis by (simp add: step_frame)
qed

lemma run_user:
  "(case last_processed es s of
      None \<Rightarrow> user (run es s) = user s
    | Some None \<Rightarrow> user (run es s) = None
    | Some (Some fu) \<Rightarrow> (\<exists>d. user (run es s) = Some (with_role fu (record_role d))))"
proof (induction es arbitrary: s)
  case Nil
  show ?case by simp
next
  case (Cons x es)
  obtain sv e where x: "x = (sv, e)" by (cases x)
  let ?s = "snd (step sv e s)"
  note IH = Cons.IH [of ?s]
  show ?case
  proof (cases "last_processed es ?s")
    case (Some r)
    with IH show ?thesis by (cases r) (simp_all add: x)
  next
    case None
    with IH have later: "user (run es ?s) = user ?s" by simp
    show ?thesis
    proof (cases "fully_processed sv e s")
      case False
      then have "last_processed (x # es) s = None"
        using None by (cases e) (simp_all add: x fully_processed_def)
      with later step_user_kept [OF False] show ?thesis by (simp add: x)
    next
      case True
      then obtain fu where e: "e = AuthStateChanged fu" and ok: "fst (onAuthStateChanged_callback sv fu s) = None"
        by (cases e) (simp_all add: fully_processed_def)
      then have lp: "last_processed (x # es) s = Some fu"
        using None by (simp add: x)
      show ?thesis
      proof (cases fu)
        case None
        with e have "user ?s = None" by (simp add: handler_defs sdk_defs)
        with later lp None show ?thesis by (simp add: x)
      next
        case (Some u)
        with callback_user [of sv u s] ok e obtain d where
          "user ?s = Some (with_role u (record_role d))" by auto
        with later lp Some show ?thesis by (auto simp: x)
      qed
    qed
  qed
qed

lemma callback_error:
  "fst (onAuthStateChanged_callback sv (Some fu) s) =
     (case getDoc_fault sv of
        Some err \<Rightarrow> Some err
      | None \<Rightarrow> (case db s (doc ''users'' (uid fu)) of Some d \<Rightarrow> None | None \<Rightarrow> setDoc_fault sv))"
  by (auto simp: handler_defs sdk_defs split: sum.splits option.splits)

lemma callback_failed:
  assumes "fst (onAuthStateChanged_callback sv (Some fu) s) = Some err"
  shows "snd (onAuthStateChanged_callback sv (Some fu) s) =
     s\<lparr>effects := effects s @ GetDoc (doc ''users'' (uid fu)) #
        (if getDoc_fault sv = None
         then [SetDoc (doc ''users'' (uid fu))
                 [(''uid'', JStr (uid fu)), (''email'', nullable (email fu)), (''role'', JStr ''member'')]]
         else [])\<rparr>"
  using assms by (auto simp: handler_defs sdk_defs split: sum.splits option.splits)

lemma signup_ok:
  assumes "fst (signup sv em pw s) = None"
  shows "\<exists>cred. createUser_reply sv = Inr cred \<and> setDoc_fault sv = None \<and>
     snd (signup sv em pw s) =
       s\<lparr>db := (db s)(doc ''users'' (uid cred) \<mapsto>
              [(''uid'', JStr (uid cred)), (''email'', JStr em), (''role'', JStr ''member'')]),
         effects := effects s @
           [CreateUserWithEmailAndPassword em pw,
            SetDoc (doc ''users'' (uid cred))
              [(''uid'', JStr (uid cred)), (''email'', JStr em), (''role'', JStr ''member'')]]\<rparr>"
  using assms by (auto simp: signup_def sdk_defs split: sum.splits option.splits)

lemma fetch_lazy:
  assumes "db s (doc ''users'' (uid fu)) = None" "getDoc_fault sv = None" "setDoc_fault sv = None"
  shows "db (snd (fetchUserData sv fu s)) (doc ''users'' (uid fu)) =
      Some [(''uid'', JStr (uid fu)), (''email'', nullable (email fu)), (''role'', JStr ''member'')]"
  using assms by (simp add: handler_defs sdk_defs)

lemma google:
  "fst (loginWithGoogle sv s) =
     (case popup_reply sv of
        Inr cred \<Rightarrow> None
      | Inl err \<Rightarrow>
          if is_FirebaseError err \<and> err_code err = JStr ''auth/popup-blocked''
          then Some (JsError ''Google login failed: Your browser blocked the sign-in pop-up. Please allow pop-ups for this site or try again.'')
          else Some err)"
  by (simp add: loginWithGoogle_def sdk_defs split: sum.splits)

section \<open>The claims\<close>

text \<open>
  C1. A notification reports a present user for whom the store holds no role record, and
  the store answers. Then the callback reads once, writes the record
  \<open>{uid, email, role: "member"}\<close> under the user's identifier (the identifier is stored
  in the field \<^verbatim>\<open>uid\<close>), publishes the user with role \<open>"member"\<close> and sets the readiness
  flag. The write happens once: a later notification for the same user finds the
  record and writes nothing.
\<close>

theorem lazy_create_once:
  assumes absent: "db s (doc ''users'' (uid fu)) = None"
    and reads: "getDoc_fault sv = None"
    and writes_ok: "setDoc_fault sv = None"
    and later: "getDoc_fault sv' = None"
  shows "onAuthStateChanged_callback sv (Some fu) s =
      (None, s\<lparr>user := Some (with_role fu (JStr ''member'')), authReady := True,
         db := (db s)(doc ''users'' (uid fu) \<mapsto>
           [(''uid'', JStr (uid fu)), (''email'', nullable (email fu)), (''role'', JStr ''member'')]),
         effects := effects s @
           [GetDoc (doc ''users'' (uid fu)),
            SetDoc (doc ''users'' (uid fu))
              [(''uid'', JStr (uid fu)), (''email'', nullable (email fu)), (''role'', JStr ''member'')]]\<rparr>)
    \<and> writes (effects (snd (onAuthStateChanged_callback sv (Some fu) s))) = writes (effects s) + 1
    \<and> writes (effects (snd (onAuthStateChanged_callback sv' (Some fu)
          (snd (onAuthStateChanged_callback sv (Some fu) s))))) = writes (effects s) + 1
    \<and> user (snd (onAuthStateChanged_callback sv' (Some fu)
          (snd (onAuthStateChanged_callback sv (Some fu) s)))) = Some (with_role fu (JStr ''member''))"
proof -
  let ?rec = "[(''uid'', JStr (uid fu)), (''email'', nullable (email fu)), (''role'', JStr ''member'')]"
  let ?s1 = "s\<lparr>user := Some (with_role fu (JStr ''member'')), authReady := True,
         db := (db s)(doc ''users'' (uid fu) \<mapsto> ?rec),
         effects := effects s @ [GetDoc (doc ''users'' (uid fu)), SetDoc (doc ''users'' (uid fu)) ?rec]\<rparr>"
  have first: "onAuthStateChanged_callback sv (Some fu) s = (None, ?s1)"
    using absent reads writes_ok by (simp add: handler_defs sdk_defs)
  have second: "onAuthStateChanged_callback sv' (Some fu) ?s1 =
      (None, ?s1\<lparr>effects := effects ?s1 @ [GetDoc (doc ''users'' (uid fu))]\<rparr>)"
    using later by (simp add: handler_defs sdk_defs js_or_def field_def)
  show ?thesis
    unfolding first by (simp add: second writes_def)
qed

theorem lazy_create_once_witness:
  "db (AuthProvider_init Map.empty) (doc ''users'' (uid alice)) = None
   \<and> getDoc_fault working = None \<and> setDoc_fault working = None
   \<and> user (snd (onAuthStateChanged_callback working (Some alice) (AuthProvider_init Map.empty)))
       = Some \<lparr>uid = ''u1'', email = Some ''a@x.com'', role = JStr ''member''\<rparr>
   \<and> db (snd (onAuthStateChanged_callback working (Some alice) (AuthProvider_init Map.empty)))
        (''users'', ''u1'')
       = Some [(''uid'', JStr ''u1''), (''email'', JStr ''a@x.com''), (''role'', JStr ''member'')]
   \<and> writes (effects (snd (onAuthStateChanged_callback working (Some alice)
        (snd (onAuthStateChanged_callback working (Some alice) (AuthProvider_init Map.empty)))))) = 1"
proof -
  have h1: "db (AuthProvider_init Map.empty) (doc ''users'' (uid alice)) = None"
    by (simp add: AuthProvider_init_def)
  have h2: "getDoc_fault working = None" and h3: "setDoc_fault working = None"
    by (simp_all add: working_def)
  note inst = lazy_create_once [OF h1 h2 h3 h2]
  from inst have first: "onAuthStateChanged_callback working (Some alice) (AuthProvider_init Map.empty) =
      (None, (AuthProvider_init Map.empty)\<lparr>user := Some (with_role alice (JStr ''member'')), authReady := True,
         db := (db (AuthProvider_init Map.empty))(doc ''users'' (uid alice) \<mapsto>
           [(''uid'', JStr (uid alice)), (''email'', nullable (email alice)), (''role'', JStr ''member'')]),
         effects := effects (AuthProvider_init Map.empty) @
           [GetDoc (doc ''users'' (uid alice)),
            SetDoc (doc ''users'' (uid alice))
              [(''uid'', JStr (uid alice)), (''email'', nullable (email alice)), (''role'', JStr ''member'')]]\<rparr>)"
    by (rule conjunct1)
  have published: "user (snd (onAuthStateChanged_callback working (Some alice) (AuthProvider_init Map.empty)))
       = Some \<lparr>uid = ''u1'', email = Some ''a@x.com'', role = JStr ''member''\<rparr>"
    unfolding first by (simp add: with_role_def alice_def)
  have stored: "db (snd (onAuthStateChanged_callback working (Some alice) (AuthProvider_init Map.empty)))
        (''users'', ''u1'')
       = Some [(''uid'', JStr ''u1''), (''email'', JStr ''a@x.com''), (''role'', JStr ''member'')]"
    unfolding first by (simp add: alice_def doc_def)
  from inst have "writes (effects (snd (onAuthStateChanged_callback working (Some alice)
        (snd (onAuthStateChanged_callback working (Some alice) (AuthProvider_init Map.empty))))))
      = writes (effects (AuthProvider_init Map.empty)) + 1"
    by blast
  then have once: "writes (effects (snd (onAuthStateChanged_callback working (Some alice)
        (snd (onAuthStateChanged_callback working (Some alice) (AuthProvider_init Map.empty)))))) = 1"
    by (simp add: AuthProvider_init_def writes_def)
  from h1 h2 h3 published stored once show ?thesis by blast
qed

text \<open>
  C2. A notification reports a present user whose role record exists, and the read
  succeeds. Then the published user is the platform user with a role: the record's
  \<^verbatim>\<open>role\<close> field when that is a non-empty string (so \<open>"admin"\<close> for an admin), and
  \<open>"member"\<close> when the field is missing or the empty string. The published role is never
  the missing or the empty value. Nothing is written.
\<close>

theorem existing_role_published:
  assumes present: "db s (doc ''users'' (uid fu)) = Some d"
    and reads: "getDoc_fault sv = None"
  shows "\<exists>u. onAuthStateChanged_callback sv (Some fu) s =
        (None, s\<lparr>user := Some u, authReady := True,
                 effects := effects s @ [GetDoc (doc ''users'' (uid fu))]\<rparr>)
      \<and> uid u = uid fu \<and> email u = email fu
      \<and> (\<forall>r. r \<noteq> [] \<and> field d ''role'' = JStr r \<longrightarrow> role u = JStr r)
      \<and> (field d ''role'' = JStr ''admin'' \<longrightarrow> role u = JStr ''admin'')
      \<and> (map_of d ''role'' = None \<or> field d ''role'' = JUndefined \<or> field d ''role'' = JStr []
           \<longrightarrow> role u = JStr ''member'')
      \<and> role u \<noteq> JUndefined \<and> role u \<noteq> JStr []"
proof -
  let ?u = "with_role fu (js_or (field d ''role'') (JStr ''member''))"
  have "onAuthStateChanged_callback sv (Some fu) s =
        (None, s\<lparr>user := Some ?u, authReady := True,
                 effects := effects s @ [GetDoc (doc ''users'' (uid fu))]\<rparr>)"
    using present reads by (simp add: handler_defs sdk_defs)
  moreover have "uid ?u = uid fu" "email ?u = email fu"
    by (simp_all add: with_role_def)
  moreover have "\<forall>r. r \<noteq> [] \<and> field d ''role'' = JStr r \<longrightarrow> role ?u = JStr r"
    by (simp add: with_role_def js_or_def)
  moreover have "field d ''role'' = JStr ''admin'' \<longrightarrow> role ?u = JStr ''admin''"
    by (simp add: with_role_def js_or_def)
  moreover have "map_of d ''role'' = None \<or> field d ''role'' = JUndefined \<or> field d ''role'' = JStr []
           \<longrightarrow> role ?u = JStr ''member''"
    by (auto simp: with_role_def js_or_def field_def)
  moreover have "role ?u \<noteq> JUndefined" "role ?u \<noteq> JStr []"
    by (auto simp: with_role_def js_or_def)
  ultimately show ?thesis by blast
qed

theorem existing_role_published_witness:
  "db (AuthProvider_init admin_store) (doc ''users'' (uid alice)) =
      Some [(''uid'', JStr ''u1''), (''email'', JStr ''a@x.com''), (''role'', JStr ''admin'')]
   \<and> getDoc_fault working = None
   \<and> (\<exists>u. user (snd (onAuthStateChanged_callback working (Some alice) (AuthProvider_init admin_store)))
             = Some u \<and> role u = JStr ''admin'')"
proof -
  have h1: "db (AuthProvider_init admin_store) (doc ''users'' (uid alice)) =
      Some [(''uid'', JStr ''u1''), (''email'', JStr ''a@x.com''), (''role'', JStr ''admin'')]"
    by (simp add: AuthProvider_init_def admin_store_def alice_def)
  have h2: "getDoc_fault working = None"
    by (simp add: working_def)
  have h3: "field [(''uid'', JStr ''u1''), (''email'', JStr ''a@x.com''), (''role'', JStr ''admin'')] ''role''
      = JStr ''admin''"
    by (simp add: field_def)
  from existing_role_published [OF h1 h2] obtain u where
    "onAuthStateChanged_callback working (Some alice) (AuthProvider_init admin_store) =
        (None, (AuthProvider_init admin_store)\<lparr>user := Some u, authReady := True,
                 effects := effects (AuthProvider_init admin_store) @ [GetDoc (doc ''users'' (uid alice))]\<rparr>)"
    and "role u = JStr ''admin''"
    using h3 by auto
  with h1 h2 show ?thesis by simp
qed

text \<open>
  C3. A notification that reports no session sets the user to null and the readiness
  flag to true, whatever the services would answer, and touches the document store
  neither by a read nor by a write: the store and the record of effects are unchanged.
\<close>

theorem absence_clears_user:
  "onAuthStateChanged_callback sv None s = (None, s\<lparr>user := None, authReady := True\<rparr>)
   \<and> user (snd (onAuthStateChanged_callback sv None s)) = None
   \<and> authReady (snd (onAuthStateChanged_callback sv None s)) = True
   \<and> db (snd (onAuthStateChanged_callback sv None s)) = db s
   \<and> effects (snd (onAuthStateChanged_callback sv None s)) = effects s"
  by (simp add: handler_defs sdk_defs)

text \<open>
  C4. Whenever \<^verbatim>\<open>signup(email, password)\<close> succeeds, the platform has returned a credential
  and the function itself, right after the account-creation call and with no
  notification involved, has written \<open>{uid, email, role: "member"}\<close> under the new
  identity's identifier; the component's state is untouched. The lazy-create path of
  role reconciliation writes, for that identity, a record with the same fields in the
  same order, the same identifier and the same role \<open>"member"\<close>, and the very same
  record when the platform user carries the email that was signed up.
\<close>

theorem signup_creates_record:
  assumes ok: "fst (signup sv em pw s) = None"
  shows "\<exists>cred. createUser_reply sv = Inr cred
    \<and> snd (signup sv em pw s) =
        s\<lparr>db := (db s)(doc ''users'' (uid cred) \<mapsto>
              [(''uid'', JStr (uid cred)), (''email'', JStr em), (''role'', JStr ''member'')]),
          effects := effects s @
            [CreateUserWithEmailAndPassword em pw,
             SetDoc (doc ''users'' (uid cred))
               [(''uid'', JStr (uid cred)), (''email'', JStr em), (''role'', JStr ''member'')]]\<rparr>
    \<and> user (snd (signup sv em pw s)) = user s
    \<and> authReady (snd (signup sv em pw s)) = authReady s
    \<and> (\<forall>sv0 s0. db s0 (doc ''users'' (uid cred)) = None \<and> getDoc_fault sv0 = None
            \<and> setDoc_fault sv0 = None \<longrightarrow>
          (\<exists>lazy. db (snd (fetchUserData sv0 cred s0)) (doc ''users'' (uid cred)) = Some lazy
             \<and> map fst lazy =
                 map fst [(''uid'', JStr (uid cred)), (''email'', JStr em), (''role'', JStr ''member'')]
             \<and> field lazy ''uid'' = JStr (uid cred)
             \<and> field lazy ''role'' = JStr ''member''
             \<and> (email cred = Some em \<longrightarrow>
                  lazy = [(''uid'', JStr (uid cred)), (''email'', JStr em), (''role'', JStr ''member'')])))"
proof -
  from signup_ok [OF ok] obtain cred where
    reply: "createUser_reply sv = Inr cred" and
    after: "snd (signup sv em pw s) =
        s\<lparr>db := (db s)(doc ''users'' (uid cred) \<mapsto>
              [(''uid'', JStr (uid cred)), (''email'', JStr em), (''role'', JStr ''member'')]),
          effects := effects s @
            [CreateUserWithEmailAndPassword em pw,
             SetDoc (doc ''users'' (uid cred))
               [(''uid'', JStr (uid cred)), (''email'', JStr em), (''role'', JStr ''member'')]]\<rparr>"
    by blast
  have lazy: "\<forall>sv0 s0. db s0 (doc ''users'' (uid cred)) = None \<and> getDoc_fault sv0 = None
            \<and> setDoc_fault sv0 = None \<longrightarrow>
          (\<exists>lazy. db (snd (fetchUserData sv0 cred s0)) (doc ''users'' (uid cred)) = Some lazy
             \<and> map fst lazy =
                 map fst [(''uid'', JStr (uid cred)), (''email'', JStr em), (''role'', JStr ''member'')]
             \<and> field lazy ''uid'' = JStr (uid cred)
             \<and> field lazy ''role'' = JStr ''member''
             \<and> (email cred = Some em \<longrightarrow>
                  lazy = [(''uid'', JStr (uid cred)), (''email'', JStr em), (''role'', JStr ''member'')]))"
    by (auto simp: fetch_lazy field_def)
  from reply after lazy show ?thesis
    by (intro exI [of _ cred] conjI) (simp_all add: signup_frame)
qed

theorem signup_creates_record_witness:
  "fst (signup working ''a@x.com'' ''pw'' (AuthProvider_init Map.empty)) = None
   \<and> db (snd (signup working ''a@x.com'' ''pw'' (AuthProvider_init Map.empty))) (''users'', ''u1'')
       = Some [(''uid'', JStr ''u1''), (''email'', JStr ''a@x.com''), (''role'', JStr ''member'')]
   \<and> user (snd (signup working ''a@x.com'' ''pw'' (AuthProvider_init Map.empty))) = None
   \<and> authReady (snd (signup working ''a@x.com'' ''pw'' (AuthProvider_init Map.empty))) = False"
proof -
  have h: "fst (signup working ''a@x.com'' ''pw'' (AuthProvider_init Map.empty)) = None"
    by (simp add: signup_def sdk_defs working_def)
  from signup_creates_record [OF h] obtain cred where
    reply: "createUser_reply working = Inr cred" and
    after: "snd (signup working ''a@x.com'' ''pw'' (AuthProvider_init Map.empty)) =
        (AuthProvider_init Map.empty)\<lparr>db := (db (AuthProvider_init Map.empty))(doc ''users'' (uid cred) \<mapsto>
              [(''uid'', JStr (uid cred)), (''email'', JStr ''a@x.com''), (''role'', JStr ''member'')]),
          effects := effects (AuthProvider_init Map.empty) @
            [CreateUserWithEmailAndPassword ''a@x.com'' ''pw'',
             SetDoc (doc ''users'' (uid cred))
               [(''uid'', JStr (uid cred)), (''email'', JStr ''a@x.com''), (''role'', JStr ''member'')]]\<rparr>"
    by blast
  from reply have cred: "cred = alice" by (simp add: working_def)
  show ?thesis
    unfolding after cred using h
    by (simp add: alice_def doc_def AuthProvider_init_def)
qed

text \<open>
  C5. \<^verbatim>\<open>loginWithGoogle()\<close> raises exactly when the interactive sign-in fails. A
  \<^verbatim>\<open>FirebaseError\<close> with code \<^verbatim>\<open>auth/popup-blocked\<close> is replaced by a new plain error whose
  message tells the user to allow pop-ups or to try again, and which differs from the
  platform's error; every other failure is raised again as it came.
\<close>

theorem loginWithGoogle_raises:
  "(fst (loginWithGoogle sv s) \<noteq> None) = isl (popup_reply sv)
   \<and> (\<forall>m. popup_reply sv = Inl (FirebaseError ''auth/popup-blocked'' m) \<longrightarrow>
        fst (loginWithGoogle sv s) =
          Some (JsError ''Google login failed: Your browser blocked the sign-in pop-up. Please allow pop-ups for this site or try again.'')
        \<and> fst (loginWithGoogle sv s) \<noteq> Some (FirebaseError ''auth/popup-blocked'' m))
   \<and> (\<forall>err. popup_reply sv = Inl err
          \<and> \<not> (is_FirebaseError err \<and> err_code err = JStr ''auth/popup-blocked'') \<longrightarrow>
        fst (loginWithGoogle sv s) = Some err)"
  by (auto simp: google split: sum.splits)

theorem loginWithGoogle_raises_witness:
  "popup_reply (working\<lparr>popup_reply := Inl blocked\<rparr>) =
      Inl (FirebaseError ''auth/popup-blocked'' ''Firebase: Error (auth/popup-blocked).'')
   \<and> fst (loginWithGoogle (working\<lparr>popup_reply := Inl blocked\<rparr>) (AuthProvider_init Map.empty)) =
      Some (JsError ''Google login failed: Your browser blocked the sign-in pop-up. Please allow pop-ups for this site or try again.'')
   \<and> popup_reply (working\<lparr>popup_reply := Inl unavailable\<rparr>) = Inl unavailable
   \<and> fst (loginWithGoogle (working\<lparr>popup_reply := Inl unavailable\<rparr>) (AuthProvider_init Map.empty)) =
      Some unavailable
   \<and> fst (loginWithGoogle working (AuthProvider_init Map.empty)) = None"
proof -
  have h1: "popup_reply (working\<lparr>popup_reply := Inl blocked\<rparr>) =
      Inl (FirebaseError ''auth/popup-blocked'' ''Firebase: Error (auth/popup-blocked).'')"
    by (simp add: blocked_def)
  have h2: "popup_reply (working\<lparr>popup_reply := Inl unavailable\<rparr>) = Inl unavailable
      \<and> \<not> (is_FirebaseError unavailable \<and> err_code unavailable = JStr ''auth/popup-blocked'')"
    by (simp add: unavailable_def)
  have h3: "\<not> isl (popup_reply working)"
    by (simp add: working_def)
  from loginWithGoogle_raises [of "working\<lparr>popup_reply := Inl blocked\<rparr>" "AuthProvider_init Map.empty"] h1
  have a: "fst (loginWithGoogle (working\<lparr>popup_reply := Inl blocked\<rparr>) (AuthProvider_init Map.empty)) =
      Some (JsError ''Google login failed: Your browser blocked the sign-in pop-up. Please allow pop-ups for this site or try again.'')"
    by blast
  from loginWithGoogle_raises [of "working\<lparr>popup_reply := Inl unavailable\<rparr>" "AuthProvider_init Map.empty"] h2
  have b: "fst (loginWithGoogle (working\<lparr>popup_reply := Inl unavailable\<rparr>) (AuthProvider_init Map.empty)) =
      Some unavailable"
    by blast
  from loginWithGoogle_raises [of working "AuthProvider_init Map.empty"] h3
  have c: "fst (loginWithGoogle working (AuthProvider_init Map.empty)) = None"
    by blast
  from h1 h2 a b c show ?thesis by blast
qed

text \<open>
  C6. The readiness flag is false when the provider mounts. An event leaves it true if it
  was true, and turns it true exactly when the event is a notification whose callback
  runs to its end, be it for a user or for absence. So along every lifetime the flag is
  true from the first fully processed notification on: it goes from false to true once
  if some notification is fully processed (and not at all otherwise), and it never goes
  from true to false, whatever notifications and actions follow.
\<close>

theorem readiness_flag_once:
  "authReady (AuthProvider_init store) = False
   \<and> authReady (snd (step sv e s)) = (authReady s \<or> fully_processed sv e s)
   \<and> fully_processed sv (AuthStateChanged None) s
   \<and> fully_processed sv (AuthStateChanged (Some fu)) s = (fst (fetchUserData sv fu s) = None)
   \<and> authReady (run es (AuthProvider_init store)) = some_processed es (AuthProvider_init store)
   \<and> rises (ready_history es (AuthProvider_init store)) =
       (if some_processed es (AuthProvider_init store) then 1 else 0)
   \<and> falls (ready_history es s) = 0"
proof -
  have "authReady (AuthProvider_init store) = False"
    by (simp add: AuthProvider_init_def)
  moreover have "fully_processed sv (AuthStateChanged None) s"
    by (simp add: fully_processed_def onAuthStateChanged_callback_def)
  moreover have "fully_processed sv (AuthStateChanged (Some fu)) s = (fst (fetchUserData sv fu s) = None)"
    by (simp add: fully_processed_def onAuthStateChanged_callback_def split: prod.splits option.splits)
  ultimately show ?thesis
    by (simp add: step_ready run_ready rises_history falls_history)
qed

theorem readiness_flag_once_witness:
  "ready_history
      [(working\<lparr>getDoc_fault := Some unavailable\<rparr>, AuthStateChanged (Some alice)),
       (working, AuthStateChanged None),
       (working, Login ''a@x.com'' ''pw''),
       (working\<lparr>getDoc_fault := Some unavailable\<rparr>, AuthStateChanged (Some alice)),
       (working, AuthStateChanged (Some alice)),
       (working, Logout)]
      (AuthProvider_init Map.empty) = [False, False, True, True, True, True, True]
   \<and> rises (ready_history
      [(working\<lparr>getDoc_fault := Some unavailable\<rparr>, AuthStateChanged (Some alice)),
       (working, AuthStateChanged None),
       (working, Login ''a@x.com'' ''pw''),
       (working\<lparr>getDoc_fault := Some unavailable\<rparr>, AuthStateChanged (Some alice)),
       (working, AuthStateChanged (Some alice)),
       (working, Logout)]
      (AuthProvider_init Map.empty)) = 1"
proof -
  let ?es = "[(working\<lparr>getDoc_fault := Some unavailable\<rparr>, AuthStateChanged (Some alice)),
       (working, AuthStateChanged None),
       (working, Login ''a@x.com'' ''pw''),
       (working\<lparr>getDoc_fault := Some unavailable\<rparr>, AuthStateChanged (Some alice)),
       (working, AuthStateChanged (Some alice)),
       (working, Logout)]"
  have hist: "ready_history ?es (AuthProvider_init Map.empty) = [False, False, True, True, True, True, True]"
    by (simp add: handler_defs action_defs sdk_defs sample_defs js_or_def field_def)
  have some: "some_processed ?es (AuthProvider_init Map.empty)"
    by (simp add: fully_processed_def handler_defs action_defs sdk_defs sample_defs)
  from readiness_flag_once [of Map.empty _ _ _ _ ?es]
  have "rises (ready_history ?es (AuthProvider_init Map.empty)) =
       (if some_processed ?es (AuthProvider_init Map.empty) then 1 else 0)"
    by blast
  with some have "rises (ready_history ?es (AuthProvider_init Map.empty)) = 1"
    by simp
  with hist show ?thesis by blast
qed

text \<open>
  C7. In every state a lifetime can reach, a published user has a resolved role. The role
  is a truthy value, hence neither missing, null nor empty; the store holds that user's
  role record; the read of the record is among the effects; the readiness flag is set;
  and the user is the platform user of the last notification whose callback ran to its
  end, with a role resolved from a record. The user changes only in a callback that runs
  to its end. Such a callback for a present user has read the record without error and
  publishes the platform user with the role of the record it read, or, when there was
  none, has first written the record with role \<open>"member"\<close> without error and publishes
  \<open>"member"\<close>: the read, and the write, come before the publication and have succeeded.
\<close>

theorem published_user_has_role:
  "role_resolved (run es (AuthProvider_init store))
   \<and> (\<forall>u. user (run es (AuthProvider_init store)) = Some u \<longrightarrow>
        truthy (role u) \<and> role u \<noteq> JUndefined \<and> role u \<noteq> JNull \<and> role u \<noteq> JStr []
        \<and> authReady (run es (AuthProvider_init store))
        \<and> (\<exists>d. db (run es (AuthProvider_init store)) (doc ''users'' (uid u)) = Some d)
        \<and> GetDoc (doc ''users'' (uid u)) \<in> set (effects (run es (AuthProvider_init store)))
        \<and> (\<exists>fu d. last_processed es (AuthProvider_init store) = Some (Some fu)
              \<and> u = with_role fu (record_role d)))
   \<and> (user (snd (onAuthStateChanged_callback sv n s)) \<noteq> user s \<longrightarrow>
        fst (onAuthStateChanged_callback sv n s) = None)
   \<and> (fst (onAuthStateChanged_callback sv (Some fu) s) = None \<longrightarrow>
        getDoc_fault sv = None
        \<and> (\<forall>d. db s (doc ''users'' (uid fu)) = Some d \<longrightarrow>
              snd (onAuthStateChanged_callback sv (Some fu) s) =
                s\<lparr>user := Some (with_role fu
                      (case map_of d ''role'' of
                         None \<Rightarrow> JStr ''member''
                       | Some v \<Rightarrow> if truthy v then v else JStr ''member'')),
                  authReady := True,
                  effects := effects s @ [GetDoc (doc ''users'' (uid fu))]\<rparr>)
        \<and> (db s (doc ''users'' (uid fu)) = None \<longrightarrow>
              setDoc_fault sv = None
              \<and> snd (onAuthStateChanged_callback sv (Some fu) s) =
                s\<lparr>user := Some (with_role fu (JStr ''member'')), authReady := True,
                  db := (db s)(doc ''users'' (uid fu) \<mapsto>
                    [(''uid'', JStr (uid fu)), (''email'', nullable (email fu)), (''role'', JStr ''member'')]),
                  effects := effects s @
                    [GetDoc (doc ''users'' (uid fu)),
                     SetDoc (doc ''users'' (uid fu))
                       [(''uid'', JStr (uid fu)), (''email'', nullable (email fu)),
                        (''role'', JStr ''member'')]]\<rparr>))"
proof -
  let ?s = "run es (AuthProvider_init store)"
  have inv: "role_resolved ?s"
    by (rule run_resolved) (rule init_resolved)
  have reach: "\<forall>u. user ?s = Some u \<longrightarrow>
        truthy (role u) \<and> role u \<noteq> JUndefined \<and> role u \<noteq> JNull \<and> role u \<noteq> JStr []
        \<and> authReady ?s
        \<and> (\<exists>d. db ?s (doc ''users'' (uid u)) = Some d)
        \<and> GetDoc (doc ''users'' (uid u)) \<in> set (effects ?s)
        \<and> (\<exists>fu d. last_processed es (AuthProvider_init store) = Some (Some fu)
              \<and> u = with_role fu (record_role d))"
  proof (intro allI impI)
    fix u
    assume pub: "user ?s = Some u"
    with inv have a: "truthy (role u)" "authReady ?s"
      "db ?s (doc ''users'' (uid u)) \<noteq> None" "GetDoc (doc ''users'' (uid u)) \<in> set (effects ?s)"
      by (simp_all add: role_resolved_def)
    from a(1) have b: "role u \<noteq> JUndefined \<and> role u \<noteq> JNull \<and> role u \<noteq> JStr []"
      by auto
    have "user (AuthProvider_init store) = None"
      by (simp add: AuthProvider_init_def)
    with run_user [of es "AuthProvider_init store"] pub
    have c: "\<exists>fu d. last_processed es (AuthProvider_init store) = Some (Some fu)
              \<and> u = with_role fu (record_role d)"
      by (auto split: option.splits)
    from a b c show "truthy (role u) \<and> role u \<noteq> JUndefined \<and> role u \<noteq> JNull \<and> role u \<noteq> JStr []
        \<and> authReady ?s
        \<and> (\<exists>d. db ?s (doc ''users'' (uid u)) = Some d)
        \<and> GetDoc (doc ''users'' (uid u)) \<in> set (effects ?s)
        \<and> (\<exists>fu d. last_processed es (AuthProvider_init store) = Some (Some fu)
              \<and> u = with_role fu (record_role d))"
      by auto
  qed
  have changed: "user (snd (onAuthStateChanged_callback sv n s)) \<noteq> user s \<longrightarrow>
        fst (onAuthStateChanged_callback sv n s) = None"
    by (simp add: callback_changes_user)
  have completed: "fst (onAuthStateChanged_callback sv (Some fu) s) = None \<longrightarrow>
        getDoc_fault sv = None
        \<and> (\<forall>d. db s (doc ''users'' (uid fu)) = Some d \<longrightarrow>
              snd (onAuthStateChanged_callback sv (Some fu) s) =
                s\<lparr>user := Some (with_role fu
                      (case map_of d ''role'' of
                         None \<Rightarrow> JStr ''member''
                       | Some v \<Rightarrow> if truthy v then v else JStr ''member'')),
                  authReady := True,
                  effects := effects s @ [GetDoc (doc ''users'' (uid fu))]\<rparr>)
        \<and> (db s (doc ''users'' (uid fu)) = None \<longrightarrow>
              setDoc_fault sv = None
              \<and> snd (onAuthStateChanged_callback sv (Some fu) s) =
                s\<lparr>user := Some (with_role fu (JStr ''member'')), authReady := True,
                  db := (db s)(doc ''users'' (uid fu) \<mapsto>
                    [(''uid'', JStr (uid fu)), (''email'', nullable (email fu)), (''role'', JStr ''member'')]),
                  effects := effects s @
                    [GetDoc (doc ''users'' (uid fu)),
                     SetDoc (doc ''users'' (uid fu))
                       [(''uid'', JStr (uid fu)), (''email'', nullable (email fu)),
                        (''role'', JStr ''member'')]]\<rparr>)"
    using callback_done [of sv fu s] by (simp add: record_role_def)
  from inv reach changed completed show ?thesis by blast
qed

theorem published_user_has_role_witness:
  "user (run [(working, AuthStateChanged (Some alice))] (AuthProvider_init admin_store))
     = Some \<lparr>uid = ''u1'', email = Some ''a@x.com'', role = JStr ''admin''\<rparr>
   \<and> authReady (run [(working, AuthStateChanged (Some alice))] (AuthProvider_init admin_store))
   \<and> (\<exists>d. db (run [(working, AuthStateChanged (Some alice))] (AuthProvider_init admin_store))
            (''users'', ''u1'') = Some d)
   \<and> GetDoc (''users'', ''u1'') \<in> set (effects
        (run [(working, AuthStateChanged (Some alice))] (AuthProvider_init admin_store)))
   \<and> user (run [(working, AuthStateChanged (Some alice))] (AuthProvider_init blank_store))
     = Some \<lparr>uid = ''u1'', email = Some ''a@x.com'', role = JStr ''member''\<rparr>
   \<and> user (run [(working\<lparr>getDoc_fault := Some unavailable\<rparr>, AuthStateChanged (Some alice))]
        (AuthProvider_init admin_store)) = None
   \<and> user (run [(working\<lparr>setDoc_fault := Some unavailable\<rparr>, AuthStateChanged (Some alice))]
        (AuthProvider_init Map.empty)) = None
   \<and> user (run [(working, AuthStateChanged (Some alice))] (AuthProvider_init Map.empty))
     = Some \<lparr>uid = ''u1'', email = Some ''a@x.com'', role = JStr ''member''\<rparr>"
proof -
  let ?es = "[(working, AuthStateChanged (Some alice))]"
  let ?u = "\<lparr>uid = ''u1'', email = Some ''a@x.com'', role = JStr ''admin''\<rparr>"
  have pub: "user (run ?es (AuthProvider_init admin_store)) = Some ?u"
    by (simp add: handler_defs sdk_defs sample_defs js_or_def field_def with_role_def)
  from published_user_has_role [of ?es admin_store] pub
  have "authReady (run ?es (AuthProvider_init admin_store))
      \<and> (\<exists>d. db (run ?es (AuthProvider_init admin_store)) (doc ''users'' (uid ?u)) = Some d)
      \<and> GetDoc (doc ''users'' (uid ?u)) \<in> set (effects (run ?es (AuthProvider_init admin_store)))"
    by blast
  then have reached: "authReady (run ?es (AuthProvider_init admin_store))
      \<and> (\<exists>d. db (run ?es (AuthProvider_init admin_store)) (''users'', ''u1'') = Some d)
      \<and> GetDoc (''users'', ''u1'') \<in> set (effects (run ?es (AuthProvider_init admin_store)))"
    by (simp add: doc_def)
  have blank: "user (run ?es (AuthProvider_init blank_store))
     = Some \<lparr>uid = ''u1'', email = Some ''a@x.com'', role = JStr ''member''\<rparr>"
    by (simp add: handler_defs sdk_defs sample_defs blank_store_def js_or_def field_def with_role_def)
  have rd: "user (run [(working\<lparr>getDoc_fault := Some unavailable\<rparr>, AuthStateChanged (Some alice))]
        (AuthProvider_init admin_store)) = None"
    by (simp add: handler_defs sdk_defs sample_defs)
  have wr: "user (run [(working\<lparr>setDoc_fault := Some unavailable\<rparr>, AuthStateChanged (Some alice))]
        (AuthProvider_init Map.empty)) = None"
    by (simp add: handler_defs sdk_defs sample_defs)
  have lazy: "user (run ?es (AuthProvider_init Map.empty))
     = Some \<lparr>uid = ''u1'', email = Some ''a@x.com'', role = JStr ''member''\<rparr>"
    by (simp add: handler_defs sdk_defs sample_defs with_role_def)
  from pub reached blank rd wr lazy show ?thesis by blast
qed

text \<open>
  C8. None of \<^verbatim>\<open>login\<close>, \<^verbatim>\<open>signup\<close>, \<^verbatim>\<open>loginWithGoogle\<close> and \<^verbatim>\<open>logout\<close> changes the user or the
  readiness flag, whatever the services answer (success or failure). An event that does
  change one of them is a session-change notification.
\<close>

theorem actions_leave_state:
  "user (snd (login sv em pw s)) = user s \<and> authReady (snd (login sv em pw s)) = authReady s
   \<and> user (snd (signup sv em pw s)) = user s \<and> authReady (snd (signup sv em pw s)) = authReady s
   \<and> user (snd (loginWithGoogle sv s)) = user s \<and> authReady (snd (loginWithGoogle sv s)) = authReady s
   \<and> user (snd (logout sv s)) = user s \<and> authReady (snd (logout sv s)) = authReady s
   \<and> (user (snd (step sv e s)) \<noteq> user s \<or> authReady (snd (step sv e s)) \<noteq> authReady s
        \<longrightarrow> is_notification e)"
  using step_frame [of e sv s]
  by (auto simp: login_frame signup_frame loginWithGoogle_frame logout_frame)

theorem actions_leave_state_witness:
  "authReady (snd (step working (AuthStateChanged None) (AuthProvider_init Map.empty)))
      \<noteq> authReady (AuthProvider_init Map.empty)
   \<and> is_notification (AuthStateChanged None)
   \<and> user (snd (login (working\<lparr>signIn_reply := Inl unavailable\<rparr>) ''a@x.com'' ''pw''
        (AuthProvider_init Map.empty))) = None
   \<and> authReady (snd (logout working (AuthProvider_init Map.empty))) = False"
proof -
  have h: "authReady (snd (step working (AuthStateChanged None) (AuthProvider_init Map.empty)))
      \<noteq> authReady (AuthProvider_init Map.empty)"
    by (simp add: handler_defs sdk_defs AuthProvider_init_def)
  from actions_leave_state [of "working\<lparr>signIn_reply := Inl unavailable\<rparr>" "''a@x.com''" "''pw''"
      "AuthProvider_init Map.empty" "AuthStateChanged None"]
  have a: "user (snd (login (working\<lparr>signIn_reply := Inl unavailable\<rparr>) ''a@x.com'' ''pw''
        (AuthProvider_init Map.empty))) = user (AuthProvider_init Map.empty)"
    by blast
  from actions_leave_state [of working "''a@x.com''" "''pw''"
      "AuthProvider_init Map.empty" "AuthStateChanged None"] h
  have b: "authReady (snd (logout working (AuthProvider_init Map.empty))) = authReady (AuthProvider_init Map.empty)"
    and c: "is_notification (AuthStateChanged None)"
    by blast+
  from h a b c show ?thesis by (simp add: AuthProvider_init_def)
qed

text \<open>
  C9. When the read of role reconciliation fails, or the read succeeds, finds no record
  and the write fails, the callback rejects with that very error. The failing call is
  made once (no retry), the user, the readiness flag and the store keep their values:
  the state differs from the one before only by the record of the calls made.
\<close>

theorem reconciliation_failure:
  assumes "getDoc_fault sv = Some err
     \<or> (getDoc_fault sv = None \<and> db s (doc ''users'' (uid fu)) = None \<and> setDoc_fault sv = Some err)"
  shows "fst (onAuthStateChanged_callback sv (Some fu) s) = Some err
    \<and> user (snd (onAuthStateChanged_callback sv (Some fu) s)) = user s
    \<and> authReady (snd (onAuthStateChanged_callback sv (Some fu) s)) = authReady s
    \<and> db (snd (onAuthStateChanged_callback sv (Some fu) s)) = db s
    \<and> snd (onAuthStateChanged_callback sv (Some fu) s) =
        s\<lparr>effects := effects s @ GetDoc (doc ''users'' (uid fu)) #
          (if getDoc_fault sv = None
           then [SetDoc (doc ''users'' (uid fu))
                   [(''uid'', JStr (uid fu)), (''email'', nullable (email fu)), (''role'', JStr ''member'')]]
           else [])\<rparr>"
proof -
  from assms have failed: "fst (onAuthStateChanged_callback sv (Some fu) s) = Some err"
    by (auto simp: callback_error)
  from callback_failed [OF failed] failed show ?thesis
    by simp
qed

theorem reconciliation_failure_witness:
  "getDoc_fault (working\<lparr>getDoc_fault := Some unavailable\<rparr>) = Some unavailable
   \<and> onAuthStateChanged_callback (working\<lparr>getDoc_fault := Some unavailable\<rparr>) (Some alice)
        (AuthProvider_init Map.empty)
      = (Some unavailable, (AuthProvider_init Map.empty)\<lparr>effects := [GetDoc (''users'', ''u1'')]\<rparr>)
   \<and> fst (onAuthStateChanged_callback (working\<lparr>setDoc_fault := Some unavailable\<rparr>) (Some alice)
        (AuthProvider_init Map.empty)) = Some unavailable
   \<and> authReady (snd (onAuthStateChanged_callback (working\<lparr>setDoc_fault := Some unavailable\<rparr>) (Some alice)
        (AuthProvider_init Map.empty))) = False
   \<and> user (snd (onAuthStateChanged_callback (working\<lparr>setDoc_fault := Some unavailable\<rparr>) (Some alice)
        (AuthProvider_init Map.empty))) = None"
proof -
  let ?rd = "working\<lparr>getDoc_fault := Some unavailable\<rparr>"
  let ?wr = "working\<lparr>setDoc_fault := Some unavailable\<rparr>"
  let ?s = "AuthProvider_init Map.empty"
  have h1: "getDoc_fault ?rd = Some unavailable
     \<or> (getDoc_fault ?rd = None \<and> db ?s (doc ''users'' (uid alice)) = None
          \<and> setDoc_fault ?rd = Some unavailable)"
    by simp
  have h2: "getDoc_fault ?wr = Some unavailable
     \<or> (getDoc_fault ?wr = None \<and> db ?s (doc ''users'' (uid alice)) = None
          \<and> setDoc_fault ?wr = Some unavailable)"
    by (simp add: working_def AuthProvider_init_def)
  note rd = reconciliation_failure [OF h1]
  note wr = reconciliation_failure [OF h2]
  from rd have "onAuthStateChanged_callback ?rd (Some alice) ?s
      = (Some unavailable, ?s\<lparr>effects := effects ?s @ GetDoc (doc ''users'' (uid alice)) #
          (if getDoc_fault ?rd = None
           then [SetDoc (doc ''users'' (uid alice))
                   [(''uid'', JStr (uid alice)), (''email'', nullable (email alice)), (''role'', JStr ''member'')]]
           else [])\<rparr>)"
    by (metis prod.collapse)
  then have a: "onAuthStateChanged_callback ?rd (Some alice) ?s
      = (Some unavailable, ?s\<lparr>effects := [GetDoc (''users'', ''u1'')]\<rparr>)"
    by (simp add: AuthProvider_init_def doc_def alice_def)
  from wr have b: "fst (onAuthStateChanged_callback ?wr (Some alice) ?s) = Some unavailable"
    and c: "authReady (snd (onAuthStateChanged_callback ?wr (Some alice) ?s)) = authReady ?s"
    and d: "user (snd (onAuthStateChanged_callback ?wr (Some alice) ?s)) = user ?s"
    by blast+
  from a b c d show ?thesis by (simp add: AuthProvider_init_def)
qed

text \<open>
  C10. \<^verbatim>\<open>useAuth()\<close> with no enclosing provider yields the context's default value: the
  user is null, the readiness flag is false, and each of the four actions resolves and
  returns the state exactly as it was: no platform call, no access to the document
  store, no change of the component's state.
\<close>

theorem useAuth_outside_provider:
  "useAuth None = AuthContext
   \<and> ctx_user (useAuth None) = None
   \<and> ctx_authReady (useAuth None) = False
   \<and> ctx_login (useAuth None) sv em pw s = (None, s)
   \<and> ctx_signup (useAuth None) sv em pw s = (None, s)
   \<and> ctx_loginWithGoogle (useAuth None) sv s = (None, s)
   \<and> ctx_logout (useAuth None) sv s = (None, s)"
  by (simp add: useAuth_def AuthContext_def)

end
